theory Spec2Isabelle
  imports Main
begin

section \<open>Values, errors and the host\<close>

text \<open>
  The library is one module, \<^verbatim>\<open>src/index.ts\<close>. Its only module-level variable is
  \<^verbatim>\<open>_isNativeTsImportSupported\<close>; its only module-level constant computed from the host
  is \<^verbatim>\<open>nodeVersionNumbers\<close>. Everything else it touches is an external collaborator:
  the dynamic \<^verbatim>\<open>import()\<close>, the three engine packages and the path helpers of
  \<^verbatim>\<open>node:url\<close> and \<^verbatim>\<open>node:path\<close>. The collaborators are fields of a \<open>host\<close> record;
  each of them may throw, which is the \<open>Inl\<close> of its result.
\<close>

text \<open>JavaScript values, as far as the module looks at them.\<close>

datatype js_value =
    JUndefined
  | JNull
  | JBool bool
  | JNum int
  | JStr string
  | JObject nat

text \<open>
  A rejection of the promise \<^verbatim>\<open>importTs\<close> returns. \<open>Error msg\<close> is a
  \<^verbatim>\<open>throw new Error(msg)\<close> of \<^verbatim>\<open>index.ts\<close> itself; \<open>External d\<close> is whatever a
  collaborator threw, passed on unchanged.
\<close>

datatype error =
    Error string
  | External string

text \<open>
  An element of \<^verbatim>\<open>nodeVersionNumbers\<close>: \<^verbatim>\<open>Number(piece)\<close> of a dot-free piece of
  \<^verbatim>\<open>process.versions.node\<close>. A piece that is not numeric gives \<open>NaN\<close>, and so does,
  in a comparison, the \<^verbatim>\<open>undefined\<close> read beyond the end of the array.
\<close>

datatype jsnum = NaN | Num int

text \<open>\<^verbatim>\<open>x < n\<close> and \<^verbatim>\<open>x === n\<close> for a numeric literal \<open>n\<close>; both are false on \<open>NaN\<close>.\<close>

fun js_lt :: "jsnum \<Rightarrow> int \<Rightarrow> bool" where
  "js_lt NaN n = False"
| "js_lt (Num x) n = (x < n)"

fun js_eq :: "jsnum \<Rightarrow> int \<Rightarrow> bool" where
  "js_eq NaN n = False"
| "js_eq (Num x) n = (x = n)"

text \<open>\<^verbatim>\<open>xs[i]\<close> of a JavaScript array, used in a numeric comparison.\<close>

definition js_index :: "jsnum list \<Rightarrow> nat \<Rightarrow> jsnum" where
  "js_index xs i = (if i < length xs then xs ! i else NaN)"

text \<open>\<^verbatim>\<open>type SupportedLoader = 'tsx' | 'jiti' | 'bundle-require' | 'native'\<close>\<close>

datatype SupportedLoader = Tsx | Jiti | BundleRequire | Native

fun loaderName :: "SupportedLoader \<Rightarrow> string" where
  "loaderName Tsx = ''tsx''"
| "loaderName Jiti = ''jiti''"
| "loaderName BundleRequire = ''bundle-require''"
| "loaderName Native = ''native''"

text \<open>A \<^verbatim>\<open>string | URL\<close> argument.\<close>

datatype url_ref = StringRef string | URLRef string

text \<open>
  The calls the module makes to its collaborators, in the order it makes them. The
  list is not a variable of the program: it is kept beside the state so that a theorem
  can say which collaborator was called.
\<close>

datatype event =
    ImportDummy
  | ImportPackage string
  | ImportNative string
  | TsImport string string
  | JitiRun string bool string
  | BundleRequireRun string string

text \<open>
  The host. \<open>import_dummy k\<close> is the outcome of the \<open>k\<close>-th attempt (from 0) at
  \<^verbatim>\<open>import('../dummy.mts')\<close>: a rejection, or the \<^verbatim>\<open>default\<close> field of the module.
  \<open>import_package\<close> is \<^verbatim>\<open>import('tsx/esm/api')\<close>, \<^verbatim>\<open>import('jiti')\<close> or
  \<^verbatim>\<open>import('bundle-require')\<close>: \<open>Some d\<close> when the package fails to load.
  \<open>jiti parent nocache path\<close> is \<^verbatim>\<open>r.default(parent, opts)(path)\<close>, where \<open>nocache\<close>
  says that \<^verbatim>\<open>cache: false, requireCache: false\<close> were put into \<^verbatim>\<open>opts\<close>.
  \<open>bundleRequire filepath cwd\<close> is the \<^verbatim>\<open>mod\<close> field of what the engine resolves to.
  The option bags of \<^verbatim>\<open>loaderOptions\<close> and the import attributes are forwarded to the
  engines untouched; no branch of the module reads them, and they are left out.
\<close>

record host =
  nodeVersionNumbers :: "jsnum list option"
  import_dummy :: "nat \<Rightarrow> string + js_value"
  import_native :: "string \<Rightarrow> string + js_value"
  import_package :: "string \<Rightarrow> string option"
  newURL :: "string \<Rightarrow> url_ref \<Rightarrow> string + string"
  fileURLToPath :: "url_ref \<Rightarrow> string + string"
  dirname :: "string \<Rightarrow> string"
  tsImport :: "string \<Rightarrow> string \<Rightarrow> string + js_value"
  jiti :: "string \<Rightarrow> bool \<Rightarrow> string \<Rightarrow> string + js_value"
  bundleRequire :: "string \<Rightarrow> string \<Rightarrow> string + js_value"

text \<open>
  The state: \<open>var_isNativeTsImportSupported\<close> is the module variable
  \<^verbatim>\<open>_isNativeTsImportSupported\<close> (\<open>None\<close> is \<^verbatim>\<open>undefined\<close>), \<open>trace\<close> the calls made
  so far.
\<close>

record state =
  var_isNativeTsImportSupported :: "bool option"
  trace :: "event list"

definition initial_state :: state where
  "initial_state = \<lparr>var_isNativeTsImportSupported = None, trace = []\<rparr>"

definition emit :: "event \<Rightarrow> state \<Rightarrow> state" where
  "emit e s = s\<lparr>trace := trace s @ [e]\<rparr>"

definition probe_attempts :: "state \<Rightarrow> nat" where
  "probe_attempts s = length (filter (\<lambda>e. e = ImportDummy) (trace s))"

section \<open>The capability probe\<close>

text \<open>
  \<^verbatim>\<open>
  export async function isNativeTsImportSupported(): Promise<boolean> {
    if (_isNativeTsImportSupported === undefined) {
      try {
        const modName = 'dummy.mts'
        const mod = await import(`../${modName}`)
        _isNativeTsImportSupported = mod.default === 'dummy'
      }
      catch {
        _isNativeTsImportSupported = false
      }
    }
    return _isNativeTsImportSupported
  }
  \<close>
  \<open>probe_outcome\<close> is the body of the \<^verbatim>\<open>try\<close> with its \<^verbatim>\<open>catch\<close>, on the outcome of
  the import.
\<close>

definition probe_outcome :: "string + js_value \<Rightarrow> bool" where
  "probe_outcome r = (case r of Inl _ \<Rightarrow> False | Inr d \<Rightarrow> d = JStr ''dummy'')"

definition isNativeTsImportSupported :: "host \<Rightarrow> state \<Rightarrow> (error + bool) \<times> state" where
  "isNativeTsImportSupported h s =
     (case var_isNativeTsImportSupported s of
        None \<Rightarrow>
          (let s1 = emit ImportDummy s;
               b = probe_outcome (import_dummy h (probe_attempts s))
           in (Inr b, s1\<lparr>var_isNativeTsImportSupported := Some b\<rparr>))
      | Some b \<Rightarrow> (Inr b, s))"

section \<open>Auto-selection\<close>

text \<open>
  \<^verbatim>\<open>
  async function tsxOrJiti() {
    if (!nodeVersionNumbers)
      return 'tsx'
    if (
      nodeVersionNumbers[0] < 18
      || (nodeVersionNumbers[0] === 18 && nodeVersionNumbers[1] < 19)
      || (nodeVersionNumbers[0] === 20 && nodeVersionNumbers[1] < 8)
    )
      return 'jiti'
    return 'tsx'
  }
  \<close>
  An array is truthy, also the empty one; only \<^verbatim>\<open>undefined\<close> takes the first branch.
\<close>

definition tsxOrJiti :: "jsnum list option \<Rightarrow> SupportedLoader" where
  "tsxOrJiti v =
     (case v of
        None \<Rightarrow> Tsx
      | Some ns \<Rightarrow>
          if js_lt (js_index ns 0) 18
             \<or> (js_eq (js_index ns 0) 18 \<and> js_lt (js_index ns 1) 19)
             \<or> (js_eq (js_index ns 0) 20 \<and> js_lt (js_index ns 1) 8)
          then Jiti
          else Tsx)"

text \<open>
  \<^verbatim>\<open>
  async function detectLoader(cache: boolean | null, isTsFile: boolean) {
    if (cache === false)
      return tsxOrJiti()
    if (!isTsFile || await isNativeTsImportSupported())
      return 'native'
    if (cache === true)
      return 'jiti'
    return tsxOrJiti()
  }
  \<close>
  \<open>cache\<close> is \<open>None\<close> for \<^verbatim>\<open>null\<close>. The \<^verbatim>\<open>||\<close> does not run the probe for a file
  that is not a TypeScript file.
\<close>

definition detectLoader ::
  "host \<Rightarrow> state \<Rightarrow> bool option \<Rightarrow> bool \<Rightarrow> (error + SupportedLoader) \<times> state" where
  "detectLoader h s cache isTsFile =
     (if cache = Some False then (Inr (tsxOrJiti (nodeVersionNumbers h)), s)
      else if \<not> isTsFile then (Inr Native, s)
      else
        (case isNativeTsImportSupported h s of
           (Inl e, s1) \<Rightarrow> (Inl e, s1)
         | (Inr supported, s1) \<Rightarrow>
             if supported then (Inr Native, s1)
             else if cache = Some True then (Inr Jiti, s1)
             else (Inr (tsxOrJiti (nodeVersionNumbers h)), s1)))"

text \<open>
  \<^verbatim>\<open>const reIsTypeScriptFile = /\.[mc]?tsx?$/\<close>: the path ends in \<^verbatim>\<open>.ts\<close>,
  \<^verbatim>\<open>.tsx\<close>, \<^verbatim>\<open>.mts\<close>, \<^verbatim>\<open>.mtsx\<close>, \<^verbatim>\<open>.cts\<close> or \<^verbatim>\<open>.ctsx\<close>.
\<close>

definition ends_with :: "string \<Rightarrow> string \<Rightarrow> bool" where
  "ends_with s suf = (length suf \<le> length s \<and> drop (length s - length suf) s = suf)"

definition isTypeScriptFile :: "string \<Rightarrow> bool" where
  "isTypeScriptFile path =
     list_ex (ends_with path) [''.ts'', ''.tsx'', ''.mts'', ''.mtsx'', ''.cts'', ''.ctsx'']"

section \<open>Validation and dispatch\<close>

text \<open>
  \<^verbatim>\<open>interface ImportTsOptions\<close>. An optional field is \<open>None\<close> when it is left out
  (\<^verbatim>\<open>undefined\<close>); \<^verbatim>\<open>cache?: boolean | null\<close> is \<open>Some None\<close> when it is
  \<^verbatim>\<open>null\<close>. A loader is the string the caller wrote: the \<^verbatim>\<open>switch\<close> has a
  \<^verbatim>\<open>default\<close> branch for a string outside the type.
\<close>

record ImportTsOptions =
  loader :: "string option"
  cache :: "bool option option"
  ignoreImportxWarning :: "bool option"
  parentURL :: url_ref

text \<open>The second argument of \<^verbatim>\<open>importTs\<close>: \<^verbatim>\<open>string | URL | ImportTsOptions\<close>.\<close>

datatype importTs_arg = ParentURL url_ref | Options ImportTsOptions

text \<open>
  \<^verbatim>\<open>
  if (typeof options === 'string' || options instanceof URL)
    options = { parentURL: options }
  \<close>
\<close>

definition normalize_options :: "importTs_arg \<Rightarrow> ImportTsOptions" where
  "normalize_options a =
     (case a of
        ParentURL p \<Rightarrow>
          \<lparr>loader = None, cache = None, ignoreImportxWarning = None, parentURL = p\<rparr>
      | Options opts \<Rightarrow> opts)"

text \<open>
  The defaults of the destructuring, \<^verbatim>\<open>cache = true\<close> and
  \<^verbatim>\<open>ignoreImportxWarning = false\<close> (a default applies to \<^verbatim>\<open>undefined\<close> only, not
  to \<^verbatim>\<open>null\<close>), and \<^verbatim>\<open>options.loader || 'auto'\<close> (the empty string is falsy).
\<close>

definition cache_of :: "ImportTsOptions \<Rightarrow> bool option" where
  "cache_of opts = (case cache opts of None \<Rightarrow> Some True | Some c \<Rightarrow> c)"

definition ignoreImportxWarning_of :: "ImportTsOptions \<Rightarrow> bool" where
  "ignoreImportxWarning_of opts = (case ignoreImportxWarning opts of None \<Rightarrow> False | Some b \<Rightarrow> b)"

definition loader_of :: "ImportTsOptions \<Rightarrow> string" where
  "loader_of opts =
     (case loader opts of None \<Rightarrow> ''auto'' | Some l \<Rightarrow> if l = [] then ''auto'' else l)"

text \<open>What a collaborator throws is passed on as it is.\<close>

definition ext :: "string + 'a \<Rightarrow> error + 'a" where
  "ext r = (case r of Inl d \<Rightarrow> Inl (External d) | Inr v \<Rightarrow> Inr v)"

text \<open>
  \<^verbatim>\<open>
  return import(
    path[0] === '.'
      ? fileURLToPath(new URL(path, parentURL))
      : path,
    otherOptions
  )
  \<close>
\<close>

definition run_native :: "host \<Rightarrow> state \<Rightarrow> string \<Rightarrow> url_ref \<Rightarrow> (error + js_value) \<times> state" where
  "run_native h s path parent =
     (let specifier =
            (if path \<noteq> [] \<and> hd path = CHR ''.''
             then (case newURL h path parent of
                     Inl d \<Rightarrow> Inl (External d)
                   | Inr u \<Rightarrow> ext (fileURLToPath h (URLRef u)))
             else Inr path)
      in case specifier of
           Inl e \<Rightarrow> (Inl e, s)
         | Inr sp \<Rightarrow> (ext (import_native h sp), emit (ImportNative sp) s))"

text \<open>
  \<^verbatim>\<open>
  return import('tsx/esm/api')
    .then(r => r.tsImport(path, { ...loaderOptions.tsx, parentURL: fileURLToPath(parentURL) }))
  \<close>
\<close>

definition run_tsx :: "host \<Rightarrow> state \<Rightarrow> string \<Rightarrow> url_ref \<Rightarrow> (error + js_value) \<times> state" where
  "run_tsx h s path parent =
     (let s1 = emit (ImportPackage ''tsx/esm/api'') s
      in case import_package h ''tsx/esm/api'' of
           Some d \<Rightarrow> (Inl (External d), s1)
         | None \<Rightarrow>
             (case fileURLToPath h parent of
                Inl d \<Rightarrow> (Inl (External d), s1)
              | Inr p \<Rightarrow> (ext (tsImport h path p), emit (TsImport path p) s1)))"

text \<open>
  \<^verbatim>\<open>
  return import('jiti')
    .then(r => r.default(fileURLToPath(parentURL), {
      esmResolve: true,
      ...(options.cache === false ? { cache: false, requireCache: false } : {}),
      ...loaderOptions.jiti,
    })(path))
  \<close>
\<close>

definition run_jiti ::
  "host \<Rightarrow> state \<Rightarrow> string \<Rightarrow> url_ref \<Rightarrow> bool \<Rightarrow> (error + js_value) \<times> state" where
  "run_jiti h s path parent nocache =
     (let s1 = emit (ImportPackage ''jiti'') s
      in case import_package h ''jiti'' of
           Some d \<Rightarrow> (Inl (External d), s1)
         | None \<Rightarrow>
             (case fileURLToPath h parent of
                Inl d \<Rightarrow> (Inl (External d), s1)
              | Inr p \<Rightarrow> (ext (jiti h p nocache path), emit (JitiRun p nocache path) s1)))"

text \<open>
  \<^verbatim>\<open>
  return import('bundle-require')
    .then(r => r.bundleRequire({
      ...loaderOptions.bundleRequire,
      filepath: path,
      cwd: dirname(fileURLToPath(parentURL)),
    }))
    .then(r => r.mod)
  \<close>
\<close>

definition run_bundle_require ::
  "host \<Rightarrow> state \<Rightarrow> string \<Rightarrow> url_ref \<Rightarrow> (error + js_value) \<times> state" where
  "run_bundle_require h s path parent =
     (let s1 = emit (ImportPackage ''bundle-require'') s
      in case import_package h ''bundle-require'' of
           Some d \<Rightarrow> (Inl (External d), s1)
         | None \<Rightarrow>
             (case fileURLToPath h parent of
                Inl d \<Rightarrow> (Inl (External d), s1)
              | Inr p \<Rightarrow>
                  (ext (bundleRequire h path (dirname h p)),
                   emit (BundleRequireRun path (dirname h p)) s1)))"

text \<open>
  The \<^verbatim>\<open>switch (loader)\<close> of \<^verbatim>\<open>importTs\<close>, with the messages as the source
  writes them:
  \<^verbatim>\<open>
  case 'native': {
    if (cache === false && !ignoreImportxWarning)
      throw new Error('`cache: false` is not compatible with `native` loader')
    ...
  case 'tsx': {
    if (cache === true && !ignoreImportxWarning)
      throw new Error('`cache: true` is not compatible with `tsx` loader')
    ...
  case 'jiti': {
    ...
  case 'bundle-require': {
    if (cache === true && !ignoreImportxWarning)
      throw new Error('`cache: true` is not compatible with `native` loader')
    ...
  default: {
    throw new Error(`Unknown loader: ${loader}`)
  \<close>
\<close>

definition switch_loader ::
  "host \<Rightarrow> state \<Rightarrow> string \<Rightarrow> string \<Rightarrow> ImportTsOptions \<Rightarrow> (error + js_value) \<times> state" where
  "switch_loader h s l path opts =
     (if l = ''native'' then
        (if cache_of opts = Some False \<and> \<not> ignoreImportxWarning_of opts
         then (Inl (Error ''`cache: false` is not compatible with `native` loader''), s)
         else run_native h s path (parentURL opts))
      else if l = ''tsx'' then
        (if cache_of opts = Some True \<and> \<not> ignoreImportxWarning_of opts
         then (Inl (Error ''`cache: true` is not compatible with `tsx` loader''), s)
         else run_tsx h s path (parentURL opts))
      else if l = ''jiti'' then
        run_jiti h s path (parentURL opts) (cache opts = Some (Some False))
      else if l = ''bundle-require'' then
        (if cache_of opts = Some True \<and> \<not> ignoreImportxWarning_of opts
         then (Inl (Error ''`cache: true` is not compatible with `native` loader''), s)
         else run_bundle_require h s path (parentURL opts))
      else (Inl (Error (''Unknown loader: '' @ l)), s))"

text \<open>
  \<^verbatim>\<open>
  let loader = options.loader || 'auto'
  if (loader === 'auto')
    loader = await detectLoader(cache, isTypeScriptFile(path))
  switch (loader) { ... }
  \<close>
\<close>

definition importTs :: "host \<Rightarrow> state \<Rightarrow> string \<Rightarrow> importTs_arg \<Rightarrow> (error + js_value) \<times> state" where
  "importTs h s path arg =
     (let opts = normalize_options arg
      in if loader_of opts = ''auto''
         then (case detectLoader h s (cache_of opts) (isTypeScriptFile path) of
                 (Inl e, s1) \<Rightarrow> (Inl e, s1)
               | (Inr l, s1) \<Rightarrow> switch_loader h s1 (loaderName l) path opts)
         else switch_loader h s (loader_of opts) path opts)"

text \<open>
  The three messages of the cache checks follow one pattern, with the value of
  \<^verbatim>\<open>cache\<close> and the name of a loader.
\<close>

definition incompatible_message :: "bool \<Rightarrow> string \<Rightarrow> string" where
  "incompatible_message c name =
     ''`cache: '' @ (if c then ''true'' else ''false'') @ ''` is not compatible with `'' @ name
       @ ''` loader''"

text \<open>The errors thrown by the cache checks of the \<^verbatim>\<open>switch\<close>.\<close>

definition cache_incompatible :: "error \<Rightarrow> bool" where
  "cache_incompatible e =
     (e = Error ''`cache: false` is not compatible with `native` loader''
      \<or> e = Error ''`cache: true` is not compatible with `tsx` loader''
      \<or> e = Error ''`cache: true` is not compatible with `native` loader'')"

section \<open>Calls of the probe, in sequence and interleaved\<close>

text \<open>\<open>n\<close> calls of the probe, each awaited before the next is made.\<close>

fun probe_calls :: "host \<Rightarrow> nat \<Rightarrow> state \<Rightarrow> (error + bool) list \<times> state" where
  "probe_calls h 0 s = ([], s)"
| "probe_calls h (Suc n) s =
     (case isNativeTsImportSupported h s of
        (r, s1) \<Rightarrow> (case probe_calls h n s1 of (rs, s2) \<Rightarrow> (r # rs, s2)))"

text \<open>
  An \<^verbatim>\<open>async\<close> function runs up to its first \<^verbatim>\<open>await\<close> when it is called, and
  the rest when the awaited promise has settled; other calls may run in between. A call
  of the probe is therefore in one of three places: \<open>Called\<close>, before the test of the
  variable; \<open>Awaiting k\<close>, suspended at \<^verbatim>\<open>await import(...)\<close> of attempt \<open>k\<close>;
  \<open>Returned b\<close>.
\<close>

datatype probe_call = Called | Awaiting nat | Returned bool

definition probe_step :: "host \<Rightarrow> probe_call \<Rightarrow> state \<Rightarrow> probe_call \<times> state" where
  "probe_step h t s =
     (case t of
        Called \<Rightarrow>
          (case var_isNativeTsImportSupported s of
             None \<Rightarrow> (Awaiting (probe_attempts s), emit ImportDummy s)
           | Some b \<Rightarrow> (Returned b, s))
      | Awaiting k \<Rightarrow>
          (let b = probe_outcome (import_dummy h k)
           in (Returned b, s\<lparr>var_isNativeTsImportSupported := Some b\<rparr>))
      | Returned b \<Rightarrow> (Returned b, s))"

text \<open>A schedule names, step by step, the call that runs next.\<close>

fun run_schedule :: "host \<Rightarrow> nat list \<Rightarrow> probe_call list \<times> state \<Rightarrow> probe_call list \<times> state" where
  "run_schedule h [] cfg = cfg"
| "run_schedule h (i # sched) (ts, s) =
     (if i < length ts
      then (case probe_step h (ts ! i) s of (t, s1) \<Rightarrow> run_schedule h sched (ts[i := t], s1))
      else run_schedule h sched (ts, s))"

section \<open>The procedure of the specification\<close>

text \<open>
  The specification's names: a cache requirement is \<^verbatim>\<open>true\<close> (must-cache),
  \<^verbatim>\<open>false\<close> (must-not-cache) or \<^verbatim>\<open>null\<close> (indifferent); the strategies are
  \<^verbatim>\<open>native\<close>, \<^verbatim>\<open>tsx\<close> (hook-transpile), \<^verbatim>\<open>jiti\<close> (bundled-runner) and
  \<^verbatim>\<open>bundle-require\<close> (bundle-to-temp).
\<close>

datatype CacheRequirement = MustCache | MustNotCache | Indifferent

datatype StrategyName = NativeStrategy | HookTranspile | BundledRunner | BundleToTemp

fun requirement_of :: "bool option \<Rightarrow> CacheRequirement" where
  "requirement_of (Some True) = MustCache"
| "requirement_of (Some False) = MustNotCache"
| "requirement_of None = Indifferent"

fun strategy_of :: "SupportedLoader \<Rightarrow> StrategyName" where
  "strategy_of Native = NativeStrategy"
| "strategy_of Tsx = HookTranspile"
| "strategy_of Jiti = BundledRunner"
| "strategy_of BundleRequire = BundleToTemp"

text \<open>
  The runtime version gate as the specification words it: unavailable identifiers are
  eligible; otherwise major below 18 is ineligible, major 18 with minor below 19 is
  ineligible, major 20 with minor below 8 is ineligible, major 19 is eligible, and all
  other combinations are eligible.
\<close>

fun engineEligibleForVersion_spec :: "(int \<times> int \<times> int) option \<Rightarrow> bool" where
  "engineEligibleForVersion_spec None = True"
| "engineEligibleForVersion_spec (Some (major, minor, patch)) =
     (if major < 18 then False
      else if major = 18 \<and> minor < 19 then False
      else if major = 20 \<and> minor < 8 then False
      else if major = 19 then True
      else True)"

text \<open>
  The version-gate branch (step 4 of the specification's procedure): hook-transpile
  when the host has no version identifier, else bundled-runner when the gate says
  ineligible, else hook-transpile.
\<close>

definition versionGateBranch_spec :: "(int \<times> int \<times> int) option \<Rightarrow> StrategyName" where
  "versionGateBranch_spec v =
     (if v = None then HookTranspile
      else if \<not> engineEligibleForVersion_spec v then BundledRunner
      else HookTranspile)"

text \<open>
  The ordered procedure of the specification: must-not-cache goes to the version-gate
  branch; else a file that is not transformable, or a probe that reports native support,
  selects native; else must-cache selects bundled-runner; otherwise the version-gate
  branch.
\<close>

definition selectStrategy_spec ::
  "CacheRequirement \<Rightarrow> bool \<Rightarrow> bool \<Rightarrow> (int \<times> int \<times> int) option \<Rightarrow> StrategyName" where
  "selectStrategy_spec req isTransformableFile probeNative v =
     (if req = MustNotCache then versionGateBranch_spec v
      else if \<not> isTransformableFile \<or> probeNative then NativeStrategy
      else if req = MustCache then BundledRunner
      else versionGateBranch_spec v)"

text \<open>The array \<^verbatim>\<open>nodeVersionNumbers\<close> of a host whose version is the given triple.\<close>

definition version_numbers :: "(int \<times> int \<times> int) option \<Rightarrow> jsnum list option" where
  "version_numbers v =
     (case v of None \<Rightarrow> None | Some (major, minor, patch) \<Rightarrow> Some [Num major, Num minor, Num patch])"

section \<open>A host and inputs to run the model on\<close>

text \<open>
  Node.js 20.11.0 without native TypeScript support: the probe import is rejected, every
  package loads and every engine returns a module object of its own.
\<close>

definition node20 :: host where
  "node20 =
     \<lparr>nodeVersionNumbers = Some [Num 20, Num 11, Num 0],
      import_dummy = (\<lambda>k. Inl ''ERR_UNKNOWN_FILE_EXTENSION''),
      import_native = (\<lambda>sp. Inr (JObject 1)),
      import_package = (\<lambda>name. None),
      newURL = (\<lambda>path parent. Inr (''file:///app/'' @ path)),
      fileURLToPath = (\<lambda>u. case u of StringRef x \<Rightarrow> Inr x | URLRef x \<Rightarrow> Inr x),
      dirname = (\<lambda>p. p),
      tsImport = (\<lambda>path parent. Inr (JObject 2)),
      jiti = (\<lambda>parent nocache path. Inr (JObject 3)),
      bundleRequire = (\<lambda>filepath cwd. Inr (JObject 4))\<rparr>"

text \<open>A runtime that imports TypeScript natively and has no Node.js version.\<close>

definition native_ts_runtime :: host where
  "native_ts_runtime =
     node20\<lparr>nodeVersionNumbers := None, import_dummy := (\<lambda>k. Inr (JStr ''dummy''))\<rparr>"

definition app_url :: url_ref where
  "app_url = StringRef ''file:///app/index.mjs''"

text \<open>A host on which no engine package is installed.\<close>

definition no_packages :: host where
  "no_packages = node20\<lparr>import_package := (\<lambda>name. Some ''ERR_MODULE_NOT_FOUND'')\<rparr>"

text \<open>The calls of a configuration that have not yet tested the variable.\<close>

definition pending :: "probe_call list \<Rightarrow> nat" where
  "pending ts = length (filter (\<lambda>t. t = Called) ts)"

section \<open>The probe\<close>

lemma isNativeTsImportSupported_returns:
  "fst (isNativeTsImportSupported h s) =
     Inr (case var_isNativeTsImportSupported s of
            None \<Rightarrow> probe_outcome (import_dummy h (probe_attempts s))
          | Some b \<Rightarrow> b)"
  by (simp add: isNativeTsImportSupported_def Let_def split: option.splits)

lemma isNativeTsImportSupported_sets_var:
  "var_isNativeTsImportSupported (snd (isNativeTsImportSupported h s)) =
     Some (case var_isNativeTsImportSupported s of
            None \<Rightarrow> probe_outcome (import_dummy h (probe_attempts s))
          | Some b \<Rightarrow> b)"
  by (simp add: isNativeTsImportSupported_def Let_def split: option.splits)

lemma probe_attempts_emit:
  "probe_attempts (emit e s) = (if e = ImportDummy then Suc (probe_attempts s) else probe_attempts s)"
  by (simp add: probe_attempts_def emit_def)

lemma probe_attempts_var_update [simp]:
  "probe_attempts (s\<lparr>var_isNativeTsImportSupported := v\<rparr>) = probe_attempts s"
  by (simp add: probe_attempts_def)

lemma isNativeTsImportSupported_attempts:
  "probe_attempts (snd (isNativeTsImportSupported h s)) =
     (if var_isNativeTsImportSupported s = None then Suc (probe_attempts s) else probe_attempts s)"
  by (simp add: isNativeTsImportSupported_def Let_def probe_attempts_emit split: option.splits)

lemma isNativeTsImportSupported_memoized:
  "var_isNativeTsImportSupported s = Some b \<Longrightarrow> isNativeTsImportSupported h s = (Inr b, s)"
  by (simp add: isNativeTsImportSupported_def)

lemma probe_calls_memoized:
  "var_isNativeTsImportSupported s = Some b \<Longrightarrow> probe_calls h n s = (replicate n (Inr b), s)"
  by (induction n) (simp_all add: isNativeTsImportSupported_memoized)

text \<open>Every call of a sequence returns what the first call returns.\<close>

lemma probe_calls_results:
  "fst (probe_calls h n s) = replicate n (fst (isNativeTsImportSupported h s))"
proof (cases n)
  case 0
  then show ?thesis by simp
next
  case (Suc m)
  obtain r s1 where call: "isNativeTsImportSupported h s = (r, s1)"
    by (cases "isNativeTsImportSupported h s")
  from call have r: "r = Inr (case var_isNativeTsImportSupported s of
            None \<Rightarrow> probe_outcome (import_dummy h (probe_attempts s))
          | Some b \<Rightarrow> b)" (is "r = Inr ?b")
    using isNativeTsImportSupported_returns [of h s] by simp
  from call have "var_isNativeTsImportSupported s1 = Some ?b"
    using isNativeTsImportSupported_sets_var [of h s] by simp
  then have "probe_calls h m s1 = (replicate m (Inr ?b), s1)"
    by (rule probe_calls_memoized)
  with Suc call r show ?thesis by simp
qed

text \<open>Only the first call of a sequence can reach the import.\<close>

lemma probe_calls_attempts:
  "probe_attempts (snd (probe_calls h n s)) \<le> Suc (probe_attempts s)"
proof (cases n)
  case 0
  then show ?thesis by simp
next
  case (Suc m)
  obtain r s1 where call: "isNativeTsImportSupported h s = (r, s1)"
    by (cases "isNativeTsImportSupported h s")
  from call obtain b where "var_isNativeTsImportSupported s1 = Some b"
    using isNativeTsImportSupported_sets_var [of h s] by simp
  then have "probe_calls h m s1 = (replicate m (Inr b), s1)"
    by (rule probe_calls_memoized)
  moreover from call have "probe_attempts s1 \<le> Suc (probe_attempts s)"
    using isNativeTsImportSupported_attempts [of h s] by (simp split: if_splits)
  ultimately show ?thesis using Suc call by simp
qed

text \<open>
  From the start of the process, every call of a sequence returns whether the first
  attempt at the import gave a module whose \<^verbatim>\<open>default\<close> is \<^verbatim>\<open>'dummy'\<close>.
\<close>

lemma probe_calls_from_start:
  "fst (probe_calls h n initial_state)
     = replicate n (Inr (import_dummy h 0 = Inr (JStr ''dummy'')))"
  unfolding probe_calls_results
  by (simp add: isNativeTsImportSupported_def initial_state_def Let_def probe_attempts_def
      probe_outcome_def split: sum.splits)

text \<open>
  The two models of a call agree: a call that runs its two steps with nothing in between
  is \<open>isNativeTsImportSupported\<close>.
\<close>

lemma probe_step_twice:
  "probe_step h Called s = (t, s1) \<Longrightarrow> probe_step h t s1 = (Returned b, s2) \<Longrightarrow>
     isNativeTsImportSupported h s = (Inr b, s2)"
  by (auto simp: probe_step_def isNativeTsImportSupported_def Let_def emit_def
      split: option.splits)

lemma probe_step_attempts:
  "probe_attempts (snd (probe_step h t s)) \<le>
     probe_attempts s + (if t = Called then 1 else 0)"
  by (simp add: probe_step_def Let_def probe_attempts_emit split: probe_call.splits option.splits)

lemma probe_step_not_Called: "fst (probe_step h t s) \<noteq> Called"
  by (simp add: probe_step_def Let_def split: probe_call.splits option.splits)

lemma pending_update:
  assumes "i < length ts" and "t \<noteq> Called"
  shows "pending (ts[i := t]) + (if ts ! i = Called then 1 else 0) = pending ts"
  using assms unfolding pending_def
proof (induction ts arbitrary: i)
  case Nil
  then show ?case by simp
next
  case (Cons a ts)
  then show ?case by (cases i) auto
qed

text \<open>
  Under any schedule a call triggers the import at most once: the attempts made and the
  calls still to test the variable never add up to more than they did at the start.
\<close>

lemma run_schedule_attempts:
  "probe_attempts (snd (run_schedule h sched (ts, s))) + pending (fst (run_schedule h sched (ts, s)))
     \<le> probe_attempts s + pending ts"
proof (induction sched arbitrary: ts s)
  case Nil
  then show ?case by simp
next
  case (Cons i sched)
  show ?case
  proof (cases "i < length ts")
    case False
    then show ?thesis using Cons.IH [of ts s] by simp
  next
    case True
    obtain t s1 where step: "probe_step h (ts ! i) s = (t, s1)"
      by (cases "probe_step h (ts ! i) s")
    have "t \<noteq> Called" using probe_step_not_Called [of h "ts ! i" s] step by simp
    then have p: "pending (ts[i := t]) + (if ts ! i = Called then 1 else 0) = pending ts"
      using True by (rule pending_update [rotated])
    have a: "probe_attempts s1 \<le> probe_attempts s + (if ts ! i = Called then 1 else 0)"
      using probe_step_attempts [of h "ts ! i" s] step by simp
    have "probe_attempts (snd (run_schedule h sched (ts[i := t], s1)))
            + pending (fst (run_schedule h sched (ts[i := t], s1)))
          \<le> probe_attempts s1 + pending (ts[i := t])"
      by (rule Cons.IH)
    also have "\<dots> \<le> probe_attempts s + pending ts" using p a by (simp split: if_splits)
    finally show ?thesis using True step by simp
  qed
qed

text \<open>
  C6, as amended. Calls of \<open>isNativeTsImportSupported\<close> made one after the other, each
  awaited before the next, all return the boolean the first of them returns, and together
  they add at most one attempt at the import; counted from the start of the process, at
  most one attempt is ever made.
\<close>

theorem probe_sequential_once:
  "fst (probe_calls h n s) = replicate n (fst (isNativeTsImportSupported h s))
   \<and> probe_attempts (snd (probe_calls h n s)) \<le> Suc (probe_attempts s)
   \<and> probe_attempts (snd (probe_calls h n initial_state)) \<le> 1"
  using probe_calls_results [of h n s] probe_calls_attempts [of h n s]
    probe_calls_attempts [of h n initial_state]
  by (simp add: initial_state_def probe_attempts_def)

text \<open>
  C6, as stated, fails for concurrent first calls. Two calls are made before either import
  has settled (\<^verbatim>\<open>Promise.all([isNativeTsImportSupported(), isNativeTsImportSupported()])\<close>):
  both find the variable \<^verbatim>\<open>undefined\<close>, and the import is attempted twice.
\<close>

theorem probe_concurrent_twice:
  "\<not> probe_attempts (snd (run_schedule node20 [0, 1, 0, 1] ([Called, Called], initial_state))) \<le> 1"
  by (simp add: probe_step_def initial_state_def probe_attempts_def emit_def node20_def
      probe_outcome_def)

text \<open>
  C7. \<open>isNativeTsImportSupported\<close> never rejects. When the variable is not yet set, a
  rejected import gives \<^verbatim>\<open>false\<close>, and the result is \<^verbatim>\<open>true\<close> exactly when the
  import resolves to a module whose \<^verbatim>\<open>default\<close> is the string \<^verbatim>\<open>'dummy'\<close>.
\<close>

theorem probe_never_throws:
  "(\<forall>e. fst (isNativeTsImportSupported h s) \<noteq> Inl e)
   \<and> (var_isNativeTsImportSupported s = None \<longrightarrow>
        (\<forall>d. import_dummy h (probe_attempts s) = Inl d \<longrightarrow>
           fst (isNativeTsImportSupported h s) = Inr False)
        \<and> (fst (isNativeTsImportSupported h s) = Inr True
             \<longleftrightarrow> import_dummy h (probe_attempts s) = Inr (JStr ''dummy'')))"
  by (auto simp: isNativeTsImportSupported_def Let_def probe_outcome_def
      split: option.splits sum.splits)

text \<open>
  C7 on two hosts at the start of the process: one whose import resolves to the sentinel,
  one whose import is rejected.
\<close>

theorem probe_never_throws_witness:
  "var_isNativeTsImportSupported initial_state = None
   \<and> import_dummy native_ts_runtime (probe_attempts initial_state) = Inr (JStr ''dummy'')
   \<and> fst (isNativeTsImportSupported native_ts_runtime initial_state) = Inr True
   \<and> import_dummy node20 (probe_attempts initial_state) = Inl ''ERR_UNKNOWN_FILE_EXTENSION''
   \<and> fst (isNativeTsImportSupported node20 initial_state) = Inr False"
  using probe_never_throws [of native_ts_runtime initial_state]
    probe_never_throws [of node20 initial_state]
  by (simp add: initial_state_def native_ts_runtime_def node20_def)

section \<open>The version gate and auto-selection\<close>

text \<open>
  C5. \<open>tsxOrJiti\<close> depends on the version numbers of the host only. Without them it
  returns \<^verbatim>\<open>'tsx'\<close>; on a version triple it returns \<^verbatim>\<open>'tsx'\<close> when the gate of the
  specification says eligible and \<^verbatim>\<open>'jiti'\<close> otherwise, that is \<^verbatim>\<open>'jiti'\<close> exactly for
  major below 18, major 18 with minor below 19, and major 20 with minor below 8; major 19
  gives \<^verbatim>\<open>'tsx'\<close>.
\<close>

theorem tsxOrJiti_gate:
  "tsxOrJiti None = Tsx
   \<and> tsxOrJiti (version_numbers v) = (if engineEligibleForVersion_spec v then Tsx else Jiti)
   \<and> tsxOrJiti (Some [Num major, Num minor, Num patch]) =
       (if major < 18 \<or> (major = 18 \<and> minor < 19) \<or> (major = 20 \<and> minor < 8) then Jiti else Tsx)
   \<and> tsxOrJiti (Some [Num 19, Num minor, Num patch]) = Tsx"
proof -
  have triple: "tsxOrJiti (Some [Num a, Num b, Num c]) =
      (if a < 18 \<or> (a = 18 \<and> b < 19) \<or> (a = 20 \<and> b < 8) then Jiti else Tsx)" for a b c
    by (simp add: tsxOrJiti_def js_index_def)
  have "tsxOrJiti (version_numbers v) = (if engineEligibleForVersion_spec v then Tsx else Jiti)"
  proof (cases v)
    case None
    then show ?thesis by (simp add: tsxOrJiti_def version_numbers_def)
  next
    case (Some t)
    obtain a b c where "t = (a, b, c)" by (cases t)
    with Some show ?thesis using triple [of a b c] by (auto simp: version_numbers_def)
  qed
  moreover have "tsxOrJiti None = Tsx" by (simp add: tsxOrJiti_def)
  ultimately show ?thesis using triple [of major minor patch] triple [of 19 minor patch] by simp
qed

lemma tsxOrJiti_cases: "tsxOrJiti v = Tsx \<or> tsxOrJiti v = Jiti"
  by (simp add: tsxOrJiti_def split: option.splits)

text \<open>What \<open>detectLoader\<close> returns, on any host.\<close>

lemma detectLoader_result:
  "fst (detectLoader h s c isTs) =
     Inr (if c = Some False then tsxOrJiti (nodeVersionNumbers h)
          else if \<not> isTs \<or> fst (isNativeTsImportSupported h s) = Inr True then Native
          else if c = Some True then Jiti
          else tsxOrJiti (nodeVersionNumbers h))"
  by (simp add: detectLoader_def isNativeTsImportSupported_def Let_def split: option.splits)

lemma detectLoader_no_error: "fst (detectLoader h s c isTs) \<noteq> Inl e"
  unfolding detectLoader_result by simp

text \<open>
  C1. On a host whose version is the triple \<open>v\<close> (or that has none), \<open>detectLoader\<close>
  returns, for every cache value and every value of the flag, the strategy of the
  specification's ordered procedure, run on what the probe reports. On every host it
  never returns \<^verbatim>\<open>'bundle-require'\<close>.
\<close>

theorem detectLoader_refines_spec:
  "map_sum id strategy_of (fst (detectLoader (h\<lparr>nodeVersionNumbers := version_numbers v\<rparr>) s c isTs)) =
     Inr (selectStrategy_spec (requirement_of c) isTs
            (fst (isNativeTsImportSupported h s) = Inr True) v)
   \<and> fst (detectLoader h s c isTs) \<noteq> Inr BundleRequire"
proof -
  let ?h = "h\<lparr>nodeVersionNumbers := version_numbers v\<rparr>"
  have probe: "fst (isNativeTsImportSupported ?h s) = fst (isNativeTsImportSupported h s)"
    by (simp add: isNativeTsImportSupported_def Let_def split: option.splits)
  have gate: "strategy_of (tsxOrJiti (version_numbers v)) = versionGateBranch_spec v"
  proof (cases v)
    case None
    then show ?thesis by (simp add: tsxOrJiti_def version_numbers_def versionGateBranch_spec_def)
  next
    case (Some t)
    obtain a b c where "t = (a, b, c)" by (cases t)
    with Some show ?thesis
      by (simp add: tsxOrJiti_def version_numbers_def versionGateBranch_spec_def js_index_def)
  qed
  have req: "(requirement_of c = MustNotCache) = (c = Some False)"
    "(requirement_of c = MustCache) = (c = Some True)"
    by (cases c rule: requirement_of.cases; simp)+
  have first: "map_sum id strategy_of (fst (detectLoader ?h s c isTs)) =
     Inr (selectStrategy_spec (requirement_of c) isTs
            (fst (isNativeTsImportSupported h s) = Inr True) v)"
    unfolding detectLoader_result probe
    by (simp add: selectStrategy_spec_def req gate)
  have second: "fst (detectLoader h s c isTs) \<noteq> Inr BundleRequire"
    unfolding detectLoader_result
    using tsxOrJiti_cases [of "nodeVersionNumbers h"] by auto
  from first second show ?thesis by simp
qed

text \<open>
  C1 on Node.js 18.12.0 without native support, a TypeScript file and \<^verbatim>\<open>cache: null\<close>:
  the version-gate branch, ineligible, hence \<^verbatim>\<open>'jiti'\<close>.
\<close>

theorem detectLoader_refines_spec_witness:
  "map_sum id strategy_of
     (fst (detectLoader (node20\<lparr>nodeVersionNumbers := version_numbers (Some (18, 12, 0))\<rparr>)
        initial_state None True))
     = Inr BundledRunner
   \<and> selectStrategy_spec Indifferent True False (Some (18, 12, 0)) = BundledRunner"
  using detectLoader_refines_spec [where h = node20 and v = "Some (18, 12, 0)"
      and s = initial_state and c = None and isTs = True]
  by (simp add: isNativeTsImportSupported_def initial_state_def node20_def Let_def probe_outcome_def
      selectStrategy_spec_def versionGateBranch_spec_def)

text \<open>
  C2. With \<^verbatim>\<open>cache: false\<close>, \<open>detectLoader\<close> never returns \<^verbatim>\<open>'native'\<close>, whatever
  the flag; with any other cache value and a file that is not a TypeScript file it returns
  \<^verbatim>\<open>'native'\<close>, whatever the host and the state of the probe.
\<close>

theorem detectLoader_native_rules:
  "fst (detectLoader h s (Some False) isTs) \<noteq> Inr Native
   \<and> (c \<noteq> Some False \<longrightarrow> fst (detectLoader h s c False) = Inr Native)"
  unfolding detectLoader_result
  using tsxOrJiti_cases [of "nodeVersionNumbers h"] by auto

text \<open>C2 on Node.js 20.11.0: \<^verbatim>\<open>cache: false\<close> gives \<^verbatim>\<open>'tsx'\<close>, \<^verbatim>\<open>cache: true\<close> gives \<^verbatim>\<open>'native'\<close>.\<close>

theorem detectLoader_native_rules_witness:
  "fst (detectLoader node20 initial_state (Some False) False) = Inr Tsx
   \<and> Some True \<noteq> Some False
   \<and> fst (detectLoader node20 initial_state (Some True) False) = Inr Native"
  using detectLoader_native_rules [of node20 initial_state False "Some True"]
  by (simp add: detectLoader_def tsxOrJiti_def node20_def js_index_def)

section \<open>Validation and dispatch\<close>

lemma isTypeScriptFile_examples:
  "isTypeScriptFile ''./mod.ts''" "\<not> isTypeScriptFile ''./mod.js''"
  by (simp_all add: isTypeScriptFile_def ends_with_def)

text \<open>An engine branch rejects only with what a collaborator threw.\<close>

lemma run_native_external: "fst (run_native h s path parent) \<noteq> Inl (Error m)"
  by (simp add: run_native_def Let_def ext_def split: sum.splits)

lemma run_tsx_external: "fst (run_tsx h s path parent) \<noteq> Inl (Error m)"
  by (simp add: run_tsx_def Let_def ext_def split: sum.splits option.splits)

lemma run_jiti_external: "fst (run_jiti h s path parent nc) \<noteq> Inl (Error m)"
  by (simp add: run_jiti_def Let_def ext_def split: sum.splits option.splits)

lemma run_bundle_require_external: "fst (run_bundle_require h s path parent) \<noteq> Inl (Error m)"
  by (simp add: run_bundle_require_def Let_def ext_def split: sum.splits option.splits)

lemmas run_external =
  run_native_external run_tsx_external run_jiti_external run_bundle_require_external

text \<open>The errors of the \<^verbatim>\<open>switch\<close> on one of the four loaders.\<close>

lemma switch_loader_known:
  "fst (switch_loader h s (loaderName l) path opts) = Inl (Error m) \<longleftrightarrow>
     \<not> ignoreImportxWarning_of opts
     \<and> (l = Native \<and> cache_of opts = Some False
            \<and> m = ''`cache: false` is not compatible with `native` loader''
        \<or> l = Tsx \<and> cache_of opts = Some True
            \<and> m = ''`cache: true` is not compatible with `tsx` loader''
        \<or> l = BundleRequire \<and> cache_of opts = Some True
            \<and> m = ''`cache: true` is not compatible with `native` loader'')"
  by (cases l) (auto simp: switch_loader_def run_external)

text \<open>An error of the \<^verbatim>\<open>switch\<close> itself comes before any call of a collaborator.\<close>

lemma switch_loader_rejects_early:
  "fst (switch_loader h s l path opts) = Inl (Error m) \<Longrightarrow> snd (switch_loader h s l path opts) = s"
  by (auto simp: switch_loader_def run_external split: if_splits)

lemma importTs_explicit:
  "loader opts = Some (loaderName l) \<Longrightarrow>
     importTs h s path (Options opts) = switch_loader h s (loaderName l) path opts"
  by (cases l) (simp_all add: importTs_def normalize_options_def loader_of_def)

text \<open>
  With one of the four loaders requested, \<open>importTs\<close> rejects with an error of the cache
  checks exactly when \<^verbatim>\<open>ignoreImportxWarning\<close> is false and the pair is \<^verbatim>\<open>native\<close> with
  \<^verbatim>\<open>cache: false\<close>, \<^verbatim>\<open>tsx\<close> with \<^verbatim>\<open>cache: true\<close> or \<^verbatim>\<open>bundle-require\<close> with
  \<^verbatim>\<open>cache: true\<close>; and then no collaborator has been called.
\<close>

lemma importTs_cache_check:
  assumes "loader opts = Some (loaderName l)"
  shows "(\<exists>e. fst (importTs h s path (Options opts)) = Inl e \<and> cache_incompatible e) \<longleftrightarrow>
     \<not> ignoreImportxWarning_of opts
     \<and> (l = Native \<and> cache_of opts = Some False
        \<or> l = Tsx \<and> cache_of opts = Some True
        \<or> l = BundleRequire \<and> cache_of opts = Some True)"
  unfolding importTs_explicit [OF assms] cache_incompatible_def
  using switch_loader_known [of h s l path opts]
  by (cases l) auto

lemma importTs_cache_check_early:
  assumes "loader opts = Some (loaderName l)"
    and "fst (importTs h s path (Options opts)) = Inl e" and "cache_incompatible e"
  shows "snd (importTs h s path (Options opts)) = s"
  using assms(2,3) unfolding importTs_explicit [OF assms(1)] cache_incompatible_def
  using switch_loader_rejects_early [of h s "loaderName l" path opts] by auto

text \<open>
  C3, at \<^verbatim>\<open>loader: 'bundle-require', cache: true, ignoreImportxWarning: false\<close>. The
  call is rejected before any collaborator is called, but the message names the
  \<^verbatim>\<open>native\<close> loader, not the loader that was resolved.
\<close>

theorem bundle_require_error_names_native:
  "importTs h s path
     (Options \<lparr>loader = Some ''bundle-require'', cache = Some (Some True),
               ignoreImportxWarning = Some False, parentURL = p\<rparr>)
     = (Inl (Error (incompatible_message True (loaderName Native))), s)
   \<and> incompatible_message True (loaderName Native)
       \<noteq> incompatible_message True (loaderName BundleRequire)"
  by (simp add: importTs_def normalize_options_def loader_of_def cache_of_def
      ignoreImportxWarning_of_def switch_loader_def incompatible_message_def)

text \<open>
  C4, at \<^verbatim>\<open>importTs('./mod.js', 'file:///app/index.mjs')\<close> on Node.js 20.11.0. The call
  resolves to the module the native import returned, and the state of the module after it
  is what it was before: the probe variable unset, and nothing else, since the module has
  no other variable. No record of the import is kept.
\<close>

theorem importTs_records_nothing:
  "importTs node20 initial_state ''./mod.js'' (ParentURL app_url)
     = (Inr (JObject 1),
        \<lparr>var_isNativeTsImportSupported = None, trace = [ImportNative ''file:///app/./mod.js'']\<rparr>)"
  by (simp add: importTs_def loader_of_def normalize_options_def cache_of_def
        ignoreImportxWarning_of_def isTypeScriptFile_examples detectLoader_def
        initial_state_def node20_def switch_loader_def run_native_def ext_def emit_def app_url_def)

lemma switch_loader_var:
  "var_isNativeTsImportSupported (snd (switch_loader h s l path opts)) = var_isNativeTsImportSupported s"
  by (simp add: switch_loader_def run_native_def run_tsx_def run_jiti_def run_bundle_require_def
      Let_def emit_def split: sum.splits option.splits)

text \<open>
  On every input, the one variable of the module is after \<open>importTs\<close> what it was before,
  or the answer of the probe: it never depends on the module that was imported.
\<close>

lemma importTs_var:
  "var_isNativeTsImportSupported (snd (importTs h s path arg)) = var_isNativeTsImportSupported s
   \<or> var_isNativeTsImportSupported (snd (importTs h s path arg))
        = Some (probe_outcome (import_dummy h (probe_attempts s)))"
  by (auto simp: importTs_def Let_def detectLoader_def isNativeTsImportSupported_def switch_loader_var
      split: option.splits)

text \<open>
  C8, as amended. A requested loader that is not the empty string, not \<^verbatim>\<open>'auto'\<close> and
  not one of the four names is rejected with \<^verbatim>\<open>Unknown loader\<close>, whatever
  \<^verbatim>\<open>ignoreImportxWarning\<close> and \<^verbatim>\<open>cache\<close> are, and no collaborator is called: the state is
  unchanged.
\<close>

theorem unknown_loader_rejected:
  "loader opts = Some l \<Longrightarrow> l \<noteq> '''' \<Longrightarrow>
   l \<notin> {''auto'', ''native'', ''tsx'', ''jiti'', ''bundle-require''} \<Longrightarrow>
     importTs h s path (Options opts) = (Inl (Error (''Unknown loader: '' @ l)), s)"
  by (simp add: importTs_def normalize_options_def loader_of_def switch_loader_def)

text \<open>C8, as amended, at \<^verbatim>\<open>loader: 'foo'\<close> with \<^verbatim>\<open>ignoreImportxWarning: true\<close>.\<close>

theorem unknown_loader_rejected_witness:
  "importTs node20 initial_state ''./mod.ts''
     (Options \<lparr>loader = Some ''foo'', cache = Some (Some False),
               ignoreImportxWarning = Some True, parentURL = app_url\<rparr>)
     = (Inl (Error ''Unknown loader: foo''), initial_state)"
  using unknown_loader_rejected [of "\<lparr>loader = Some ''foo'', cache = Some (Some False),
               ignoreImportxWarning = Some True, parentURL = app_url\<rparr>" "''foo''"
               node20 initial_state "''./mod.ts''"]
  by simp

text \<open>
  C8, as stated, fails at \<^verbatim>\<open>loader: ''\<close>. The empty string is outside the four names
  and is not \<^verbatim>\<open>'auto'\<close>, but \<^verbatim>\<open>options.loader || 'auto'\<close> takes it for a loader left
  out: the call selects \<^verbatim>\<open>native\<close>, calls the native import and resolves.
\<close>

theorem empty_loader_is_auto:
  "importTs node20 initial_state ''./mod.js''
     (Options \<lparr>loader = Some '''', cache = None, ignoreImportxWarning = None, parentURL = app_url\<rparr>)
     = (Inr (JObject 1),
        \<lparr>var_isNativeTsImportSupported = None, trace = [ImportNative ''file:///app/./mod.js'']\<rparr>)"
  by (simp add: importTs_def loader_of_def normalize_options_def cache_of_def
        ignoreImportxWarning_of_def isTypeScriptFile_examples detectLoader_def
        initial_state_def node20_def switch_loader_def run_native_def ext_def emit_def app_url_def)

lemma switch_loader_defaults:
  "switch_loader h s l path
     \<lparr>loader = None, cache = None, ignoreImportxWarning = None, parentURL = p\<rparr>
   = switch_loader h s l path
       \<lparr>loader = Some ''auto'', cache = Some (Some True),
         ignoreImportxWarning = Some False, parentURL = p\<rparr>"
  by (simp add: switch_loader_def cache_of_def ignoreImportxWarning_of_def)

text \<open>The \<^verbatim>\<open>switch\<close> reads a cache left out as \<^verbatim>\<open>true\<close>, and never reads the loader field.\<close>

lemma switch_loader_cache_default:
  "switch_loader h s l path (opts\<lparr>cache := None\<rparr>)
     = switch_loader h s l path (opts\<lparr>cache := Some (Some True)\<rparr>)"
  by (simp add: switch_loader_def cache_of_def ignoreImportxWarning_of_def)

lemma switch_loader_ignores_loader:
  "switch_loader h s l path (opts\<lparr>loader := x\<rparr>) = switch_loader h s l path opts"
  by (simp add: switch_loader_def cache_of_def ignoreImportxWarning_of_def)

text \<open>An options object without \<^verbatim>\<open>cache\<close> runs as the same object with \<^verbatim>\<open>cache: true\<close>.\<close>

lemma importTs_cache_default:
  "importTs h s path (Options (opts\<lparr>cache := None\<rparr>))
     = importTs h s path (Options (opts\<lparr>cache := Some (Some True)\<rparr>))"
proof -
  have "loader_of (opts\<lparr>cache := None\<rparr>) = loader_of (opts\<lparr>cache := Some (Some True)\<rparr>)"
    by (simp add: loader_of_def)
  moreover have "cache_of (opts\<lparr>cache := None\<rparr>) = cache_of (opts\<lparr>cache := Some (Some True)\<rparr>)"
    by (simp add: cache_of_def)
  ultimately show ?thesis
    by (simp add: importTs_def normalize_options_def Let_def switch_loader_cache_default
        split: prod.splits sum.splits)
qed

text \<open>An options object without \<^verbatim>\<open>loader\<close> runs as the same object with \<^verbatim>\<open>loader: 'auto'\<close>.\<close>

lemma importTs_loader_default:
  "importTs h s path (Options (opts\<lparr>loader := None\<rparr>))
     = importTs h s path (Options (opts\<lparr>loader := Some ''auto''\<rparr>))"
proof -
  have "loader_of (opts\<lparr>loader := None\<rparr>) = ''auto''"
    "loader_of (opts\<lparr>loader := Some ''auto''\<rparr>) = ''auto''"
    by (simp_all add: loader_of_def)
  moreover have "cache_of (opts\<lparr>loader := None\<rparr>) = cache_of (opts\<lparr>loader := Some ''auto''\<rparr>)"
    by (simp add: cache_of_def)
  ultimately show ?thesis
    by (simp add: importTs_def normalize_options_def Let_def switch_loader_ignores_loader
        split: prod.splits sum.splits)
qed

text \<open>
  Runs on Node.js 20.11.0 without native TypeScript support, on a TypeScript file. The
  shorthand form, and the options form with both fields left out, select \<^verbatim>\<open>jiti\<close>: the
  branch of \<^verbatim>\<open>cache === true\<close>. With \<^verbatim>\<open>cache: null\<close> the same call selects
  \<^verbatim>\<open>tsx\<close>. With \<^verbatim>\<open>loader: 'tsx'\<close> and no \<^verbatim>\<open>cache\<close> the check of \<^verbatim>\<open>cache === true\<close>
  rejects the call.
\<close>

lemma shorthand_run:
  "importTs node20 initial_state ''./mod.ts'' (ParentURL app_url)
     = (Inr (JObject 3),
        \<lparr>var_isNativeTsImportSupported = Some False,
         trace = [ImportDummy, ImportPackage ''jiti'',
                  JitiRun ''file:///app/index.mjs'' False ''./mod.ts'']\<rparr>)"
  by (simp add: importTs_def loader_of_def normalize_options_def cache_of_def
      isTypeScriptFile_examples detectLoader_def isNativeTsImportSupported_def Let_def
      initial_state_def probe_outcome_def node20_def switch_loader_def run_jiti_def
      emit_def ext_def app_url_def probe_attempts_def)

lemma omitted_fields_run:
  "importTs node20 initial_state ''./mod.ts''
     (Options \<lparr>loader = None, cache = None, ignoreImportxWarning = None, parentURL = app_url\<rparr>)
     = (Inr (JObject 3),
        \<lparr>var_isNativeTsImportSupported = Some False,
         trace = [ImportDummy, ImportPackage ''jiti'',
                  JitiRun ''file:///app/index.mjs'' False ''./mod.ts'']\<rparr>)"
  by (simp add: importTs_def loader_of_def normalize_options_def cache_of_def
      isTypeScriptFile_examples detectLoader_def isNativeTsImportSupported_def Let_def
      initial_state_def probe_outcome_def node20_def switch_loader_def run_jiti_def
      emit_def ext_def app_url_def probe_attempts_def)

lemma cache_null_run:
  "importTs node20 initial_state ''./mod.ts''
     (Options \<lparr>loader = None, cache = Some None, ignoreImportxWarning = None, parentURL = app_url\<rparr>)
     = (Inr (JObject 2),
        \<lparr>var_isNativeTsImportSupported = Some False,
         trace = [ImportDummy, ImportPackage ''tsx/esm/api'',
                  TsImport ''./mod.ts'' ''file:///app/index.mjs'']\<rparr>)"
  by (simp add: importTs_def loader_of_def normalize_options_def cache_of_def
      ignoreImportxWarning_of_def tsxOrJiti_def js_index_def
      isTypeScriptFile_examples detectLoader_def isNativeTsImportSupported_def Let_def
      initial_state_def probe_outcome_def node20_def switch_loader_def run_tsx_def
      emit_def ext_def app_url_def probe_attempts_def)

lemma tsx_omitted_cache_run:
  "importTs node20 initial_state ''./mod.ts''
     (Options \<lparr>loader = Some ''tsx'', cache = None, ignoreImportxWarning = None, parentURL = app_url\<rparr>)
     = (Inl (Error ''`cache: true` is not compatible with `tsx` loader''), initial_state)"
  by (simp add: importTs_def loader_of_def normalize_options_def cache_of_def
      ignoreImportxWarning_of_def switch_loader_def)

text \<open>
  C9. In the shorthand form the cache value is \<^verbatim>\<open>true\<close> and the loader is
  \<^verbatim>\<open>'auto'\<close>, and the shorthand call of \<open>importTs\<close> is the call with
  \<^verbatim>\<open>loader: 'auto', cache: true, ignoreImportxWarning: false\<close> written out. The options
  form has the same defaults: \<open>importTs\<close> on any options object with \<^verbatim>\<open>cache\<close> left out
  is \<open>importTs\<close> on that object with \<^verbatim>\<open>cache: true\<close>, and with \<^verbatim>\<open>loader\<close> left out it
  is \<open>importTs\<close> on that object with \<^verbatim>\<open>loader: 'auto'\<close>. The defaults are in effect:
  on Node.js 20.11.0 the shorthand call and the call with both fields left out run
  \<^verbatim>\<open>jiti\<close>, where \<^verbatim>\<open>cache: null\<close> runs \<^verbatim>\<open>tsx\<close>, and \<^verbatim>\<open>loader: 'tsx'\<close> with
  \<^verbatim>\<open>cache\<close> left out is rejected by the check of \<^verbatim>\<open>cache: true\<close>.
\<close>

theorem shorthand_defaults:
  "cache_of (normalize_options (ParentURL p)) = Some True
   \<and> loader_of (normalize_options (ParentURL p)) = ''auto''
   \<and> cache_of (normalize_options (Options (opts\<lparr>cache := None\<rparr>))) = Some True
   \<and> loader_of (normalize_options (Options (opts\<lparr>loader := None\<rparr>))) = ''auto''
   \<and> importTs h s path (ParentURL p)
       = importTs h s path
           (Options \<lparr>loader = Some ''auto'', cache = Some (Some True),
                     ignoreImportxWarning = Some False, parentURL = p\<rparr>)
   \<and> importTs h s path (Options (opts\<lparr>cache := None\<rparr>))
       = importTs h s path (Options (opts\<lparr>cache := Some (Some True)\<rparr>))
   \<and> importTs h s path (Options (opts\<lparr>loader := None\<rparr>))
       = importTs h s path (Options (opts\<lparr>loader := Some ''auto''\<rparr>))
   \<and> importTs node20 initial_state ''./mod.ts'' (ParentURL app_url)
       = (Inr (JObject 3),
          \<lparr>var_isNativeTsImportSupported = Some False,
           trace = [ImportDummy, ImportPackage ''jiti'',
                    JitiRun ''file:///app/index.mjs'' False ''./mod.ts'']\<rparr>)
   \<and> importTs node20 initial_state ''./mod.ts''
         (Options \<lparr>loader = None, cache = None, ignoreImportxWarning = None,
                   parentURL = app_url\<rparr>)
       = (Inr (JObject 3),
          \<lparr>var_isNativeTsImportSupported = Some False,
           trace = [ImportDummy, ImportPackage ''jiti'',
                    JitiRun ''file:///app/index.mjs'' False ''./mod.ts'']\<rparr>)
   \<and> importTs node20 initial_state ''./mod.ts''
         (Options \<lparr>loader = None, cache = Some None, ignoreImportxWarning = None,
                   parentURL = app_url\<rparr>)
       = (Inr (JObject 2),
          \<lparr>var_isNativeTsImportSupported = Some False,
           trace = [ImportDummy, ImportPackage ''tsx/esm/api'',
                    TsImport ''./mod.ts'' ''file:///app/index.mjs'']\<rparr>)
   \<and> importTs node20 initial_state ''./mod.ts''
         (Options \<lparr>loader = Some ''tsx'', cache = None, ignoreImportxWarning = None,
                   parentURL = app_url\<rparr>)
       = (Inl (Error ''`cache: true` is not compatible with `tsx` loader''), initial_state)"
proof -
  have norm: "cache_of (normalize_options (ParentURL p)) = Some True"
    "loader_of (normalize_options (ParentURL p)) = ''auto''"
    "cache_of (normalize_options (Options (opts\<lparr>cache := None\<rparr>))) = Some True"
    "loader_of (normalize_options (Options (opts\<lparr>loader := None\<rparr>))) = ''auto''"
    by (simp_all add: normalize_options_def cache_of_def loader_of_def)
  have short: "importTs h s path (ParentURL p)
       = importTs h s path
           (Options \<lparr>loader = Some ''auto'', cache = Some (Some True),
                     ignoreImportxWarning = Some False, parentURL = p\<rparr>)"
    by (simp add: normalize_options_def cache_of_def loader_of_def importTs_def
        switch_loader_defaults split: prod.splits sum.splits)
  show ?thesis
    unfolding shorthand_run omitted_fields_run cache_null_run tsx_omitted_cache_run
    using norm short importTs_cache_default [of h s path opts]
      importTs_loader_default [of h s path opts]
    by simp
qed

text \<open>
  C9 on Node.js 20.11.0, from the theorem: an options object that names only the parent
  and \<^verbatim>\<open>loader: 'tsx'\<close> runs as with \<^verbatim>\<open>cache: true\<close> and is rejected by the cache check,
  and one that names only the parent and \<^verbatim>\<open>cache: null\<close> runs as with \<^verbatim>\<open>loader: 'auto'\<close>
  and selects \<^verbatim>\<open>tsx\<close>.
\<close>

theorem shorthand_defaults_witness:
  "importTs node20 initial_state ''./mod.ts''
     (Options \<lparr>loader = Some ''tsx'', cache = Some (Some True), ignoreImportxWarning = None,
               parentURL = app_url\<rparr>)
     = (Inl (Error ''`cache: true` is not compatible with `tsx` loader''), initial_state)
   \<and> importTs node20 initial_state ''./mod.ts''
       (Options \<lparr>loader = Some ''auto'', cache = Some None, ignoreImportxWarning = None,
                 parentURL = app_url\<rparr>)
     = (Inr (JObject 2),
        \<lparr>var_isNativeTsImportSupported = Some False,
         trace = [ImportDummy, ImportPackage ''tsx/esm/api'',
                  TsImport ''./mod.ts'' ''file:///app/index.mjs'']\<rparr>)"
proof -
  let ?tsx = "\<lparr>loader = Some ''tsx'', cache = None, ignoreImportxWarning = None,
                parentURL = app_url\<rparr>"
  let ?null = "\<lparr>loader = None, cache = Some None, ignoreImportxWarning = None,
                 parentURL = app_url\<rparr>"
  note tsx = shorthand_defaults [where h = node20 and s = initial_state
      and path = "''./mod.ts''" and opts = ?tsx]
  note null = shorthand_defaults [where h = node20 and s = initial_state
      and path = "''./mod.ts''" and opts = ?null]
  have "importTs node20 initial_state ''./mod.ts'' (Options (?tsx\<lparr>cache := None\<rparr>))
      = importTs node20 initial_state ''./mod.ts'' (Options (?tsx\<lparr>cache := Some (Some True)\<rparr>))"
    by (rule tsx [THEN conjunct2, THEN conjunct2, THEN conjunct2, THEN conjunct2, THEN conjunct2, THEN conjunct1])
  moreover have "importTs node20 initial_state ''./mod.ts'' (Options ?tsx)
      = (Inl (Error ''`cache: true` is not compatible with `tsx` loader''), initial_state)"
    by (rule tsx [THEN conjunct2, THEN conjunct2, THEN conjunct2, THEN conjunct2, THEN conjunct2, THEN conjunct2, THEN conjunct2, THEN conjunct2, THEN conjunct2, THEN conjunct2])
  ultimately have first: "importTs node20 initial_state ''./mod.ts''
     (Options \<lparr>loader = Some ''tsx'', cache = Some (Some True), ignoreImportxWarning = None,
               parentURL = app_url\<rparr>)
     = (Inl (Error ''`cache: true` is not compatible with `tsx` loader''), initial_state)"
    by simp
  have "importTs node20 initial_state ''./mod.ts'' (Options (?null\<lparr>loader := None\<rparr>))
      = importTs node20 initial_state ''./mod.ts'' (Options (?null\<lparr>loader := Some ''auto''\<rparr>))"
    by (rule null [THEN conjunct2, THEN conjunct2, THEN conjunct2, THEN conjunct2, THEN conjunct2, THEN conjunct2, THEN conjunct1])
  moreover have "importTs node20 initial_state ''./mod.ts'' (Options ?null)
      = (Inr (JObject 2),
         \<lparr>var_isNativeTsImportSupported = Some False,
          trace = [ImportDummy, ImportPackage ''tsx/esm/api'',
                   TsImport ''./mod.ts'' ''file:///app/index.mjs'']\<rparr>)"
    by (rule null [THEN conjunct2, THEN conjunct2, THEN conjunct2, THEN conjunct2, THEN conjunct2, THEN conjunct2, THEN conjunct2, THEN conjunct2, THEN conjunct2, THEN conjunct1])
  ultimately have second: "importTs node20 initial_state ''./mod.ts''
       (Options \<lparr>loader = Some ''auto'', cache = Some None, ignoreImportxWarning = None,
                 parentURL = app_url\<rparr>)
     = (Inr (JObject 2),
        \<lparr>var_isNativeTsImportSupported = Some False,
         trace = [ImportDummy, ImportPackage ''tsx/esm/api'',
                  TsImport ''./mod.ts'' ''file:///app/index.mjs'']\<rparr>)"
    by simp
  from first second show ?thesis by simp
qed

text \<open>The loader \<open>detectLoader\<close> returns passes the cache check of its branch.\<close>

lemma detectLoader_compatible:
  assumes "fst (detectLoader h s (cache_of opts) isTs) = Inr l"
  shows "fst (switch_loader h s1 (loaderName l) path opts) \<noteq> Inl (Error m)"
proof -
  from assms have
    "l = (if cache_of opts = Some False then tsxOrJiti (nodeVersionNumbers h)
          else if \<not> isTs \<or> fst (isNativeTsImportSupported h s) = Inr True then Native
          else if cache_of opts = Some True then Jiti
          else tsxOrJiti (nodeVersionNumbers h))"
    unfolding detectLoader_result by simp
  then show ?thesis
    unfolding switch_loader_known
    using tsxOrJiti_cases [of "nodeVersionNumbers h"] by (auto split: if_splits)
qed

text \<open>With the loader \<^verbatim>\<open>'auto'\<close>, \<open>importTs\<close> throws no error of its own.\<close>

lemma importTs_auto_no_Error:
  assumes "loader_of (normalize_options arg) = ''auto''"
  shows "fst (importTs h s path arg) \<noteq> Inl (Error m)"
proof -
  let ?opts = "normalize_options arg"
  obtain r s1 where d: "detectLoader h s (cache_of ?opts) (isTypeScriptFile path) = (r, s1)"
    by (cases "detectLoader h s (cache_of ?opts) (isTypeScriptFile path)")
  then obtain l where l: "r = Inr l"
    using detectLoader_no_error [of h s "cache_of ?opts" "isTypeScriptFile path"]
    by (cases r) auto
  have "fst (switch_loader h s1 (loaderName l) path ?opts) \<noteq> Inl (Error m)"
    using detectLoader_compatible [of h s ?opts "isTypeScriptFile path" l] d l by simp
  then show ?thesis using assms d l by (simp add: importTs_def Let_def)
qed

text \<open>
  C10. When the loader is \<^verbatim>\<open>'auto'\<close> (written out, left out, or the shorthand form),
  \<open>importTs\<close> never rejects with an error of the cache checks, for every path, cache value
  and \<^verbatim>\<open>ignoreImportxWarning\<close>, on every host and in every state.
\<close>

theorem auto_never_cache_incompatible:
  "loader_of (normalize_options arg) = ''auto'' \<Longrightarrow>
     \<forall>e. fst (importTs h s path arg) = Inl e \<longrightarrow> \<not> cache_incompatible e"
  using importTs_auto_no_Error [of arg h s path]
  by (auto simp: cache_incompatible_def)

text \<open>
  C10 on a host without the engine packages: the shorthand call on a TypeScript file
  selects \<^verbatim>\<open>jiti\<close> and is rejected, with the error of the package import.
\<close>

theorem auto_never_cache_incompatible_witness:
  "loader_of (normalize_options (ParentURL app_url)) = ''auto''
   \<and> fst (importTs no_packages initial_state ''./mod.ts'' (ParentURL app_url))
       = Inl (External ''ERR_MODULE_NOT_FOUND'')
   \<and> \<not> cache_incompatible (External ''ERR_MODULE_NOT_FOUND'')"
proof -
  have auto: "loader_of (normalize_options (ParentURL app_url)) = ''auto''"
    by (simp add: loader_of_def normalize_options_def)
  have run: "fst (importTs no_packages initial_state ''./mod.ts'' (ParentURL app_url))
       = Inl (External ''ERR_MODULE_NOT_FOUND'')"
    by (simp add: importTs_def loader_of_def normalize_options_def cache_of_def
        isTypeScriptFile_examples detectLoader_def isNativeTsImportSupported_def Let_def
        initial_state_def probe_outcome_def no_packages_def node20_def switch_loader_def
        run_jiti_def)
  from auto_never_cache_incompatible [OF auto, of no_packages initial_state "''./mod.ts''"] run
  have "\<not> cache_incompatible (External ''ERR_MODULE_NOT_FOUND'')" by simp
  with auto run show ?thesis by simp
qed

end
